theory Spec2Isabelle
  imports Complex_Main
begin

section \<open>JavaScript numbers\<close>

text \<open>
  The ledger of \<^verbatim>\<open>src/Company.ts\<close> computes with JavaScript numbers. A number is
  modelled as a finite value, a negative zero, one of the two infinities or NaN. The
  special values follow IEEE 754 as JavaScript exposes it: \<open>x / 0\<close> is an infinity for
  \<open>x \<noteq> 0\<close>, \<open>0 / 0\<close>, \<open>0 * Infinity\<close> and \<open>Infinity - Infinity\<close> are NaN, every
  comparison with NaN is false. Finite values are exact rationals: the rounding of
  binary64 results to 53 bits and the overflow of huge finite results to an infinity
  are not modelled. \<open>Fin 0\<close> is the positive zero. The theorems stated for every ledger
  use the structure of the operations, the special values and the sign and order of
  numbers, not the exactness of a quotient or of a sum; the concrete ledgers are chosen
  so that binary64 gives the same share counts, totals and percentages.
\<close>

datatype number = Fin rat | NegZero | PInf | NInf | NaN

fun sign_neg :: "number \<Rightarrow> bool" where
  "sign_neg (Fin r) = (r < 0)"
| "sign_neg NegZero = True"
| "sign_neg PInf = False"
| "sign_neg NInf = True"
| "sign_neg NaN = False"

fun is_zero :: "number \<Rightarrow> bool" where
  "is_zero (Fin r) = (r = 0)"
| "is_zero NegZero = True"
| "is_zero PInf = False"
| "is_zero NInf = False"
| "is_zero NaN = False"

fun is_inf :: "number \<Rightarrow> bool" where
  "is_inf (Fin r) = False"
| "is_inf NegZero = False"
| "is_inf PInf = True"
| "is_inf NInf = True"
| "is_inf NaN = False"

fun is_finite :: "number \<Rightarrow> bool" where
  "is_finite (Fin r) = True"
| "is_finite NegZero = True"
| "is_finite PInf = False"
| "is_finite NInf = False"
| "is_finite NaN = False"

text \<open>The value of a finite number (both zeros are 0).\<close>

fun val :: "number \<Rightarrow> rat" where
  "val (Fin r) = r"
| "val NegZero = 0"
| "val PInf = 0"
| "val NInf = 0"
| "val NaN = 0"

definition mk_zero :: "bool \<Rightarrow> number" where
  "mk_zero neg = (if neg then NegZero else Fin 0)"

definition mk_inf :: "bool \<Rightarrow> number" where
  "mk_inf neg = (if neg then NInf else PInf)"

text \<open>\<open>x * y\<close>\<close>

definition js_mul :: "number \<Rightarrow> number \<Rightarrow> number" where
  "js_mul x y =
     (if x = NaN \<or> y = NaN then NaN
      else if (is_zero x \<and> is_inf y) \<or> (is_inf x \<and> is_zero y) then NaN
      else if is_inf x \<or> is_inf y then mk_inf (sign_neg x \<noteq> sign_neg y)
      else if is_zero x \<or> is_zero y then mk_zero (sign_neg x \<noteq> sign_neg y)
      else Fin (val x * val y))"

text \<open>\<open>x / y\<close>: never raises; a zero divisor gives an infinity or NaN.\<close>

definition js_div :: "number \<Rightarrow> number \<Rightarrow> number" where
  "js_div x y =
     (if x = NaN \<or> y = NaN then NaN
      else if (is_inf x \<and> is_inf y) \<or> (is_zero x \<and> is_zero y) then NaN
      else if is_inf x \<or> is_zero y then mk_inf (sign_neg x \<noteq> sign_neg y)
      else if is_zero x \<or> is_inf y then mk_zero (sign_neg x \<noteq> sign_neg y)
      else Fin (val x / val y))"

text \<open>\<open>x + y\<close>: an exact sum that is zero is the positive zero.\<close>

definition js_add :: "number \<Rightarrow> number \<Rightarrow> number" where
  "js_add x y =
     (if x = NaN \<or> y = NaN then NaN
      else if (x = PInf \<and> y = NInf) \<or> (x = NInf \<and> y = PInf) then NaN
      else if is_inf x then x
      else if is_inf y then y
      else if x = NegZero then y
      else if y = NegZero then x
      else Fin (val x + val y))"

fun js_neg :: "number \<Rightarrow> number" where
  "js_neg (Fin r) = (if r = 0 then NegZero else Fin (- r))"
| "js_neg NegZero = Fin 0"
| "js_neg PInf = NInf"
| "js_neg NInf = PInf"
| "js_neg NaN = NaN"

text \<open>\<open>x - y\<close>\<close>

definition js_sub :: "number \<Rightarrow> number \<Rightarrow> number" where
  "js_sub x y = js_add x (js_neg y)"

text \<open>\<open>x < y\<close>, \<open>x > y\<close>, \<open>x <= y\<close>, \<open>x === y\<close>: false as soon as one side is NaN.\<close>

definition js_lt :: "number \<Rightarrow> number \<Rightarrow> bool" where
  "js_lt x y =
     (if x = NaN \<or> y = NaN then False
      else if x = PInf \<or> y = NInf then False
      else if x = NInf \<or> y = PInf then True
      else val x < val y)"

definition js_gt :: "number \<Rightarrow> number \<Rightarrow> bool" where
  "js_gt x y = js_lt y x"



text \<open>\<open>Math.min(x, y)\<close>: NaN if one argument is NaN; the negative zero is below the
  positive one.\<close>

definition js_min :: "number \<Rightarrow> number \<Rightarrow> number" where
  "js_min x y =
     (if x = NaN \<or> y = NaN then NaN
      else if js_lt x y then x
      else if js_lt y x then y
      else if y = NegZero then y
      else x)"

text \<open>\<open>Math.round(x)\<close>: the nearest integer, a tie going up; values in \<open>[-0.5, 0)\<close>
  round to the negative zero; the infinities and NaN are returned as they are.\<close>

fun js_round :: "number \<Rightarrow> number" where
  "js_round (Fin r) =
     (let n = \<lfloor>r + 1 / 2\<rfloor> in if n = 0 \<and> r < 0 then NegZero else Fin (of_int n))"
| "js_round NegZero = NegZero"
| "js_round PInf = PInf"
| "js_round NInf = NInf"
| "js_round NaN = NaN"

text \<open>The condition \<open>s.discount ? ... : ...\<close> on an optional number: \<open>undefined\<close>, both
  zeros and NaN are falsy.\<close>

fun truthy :: "number option \<Rightarrow> bool" where
  "truthy None = False"
| "truthy (Some d) = (\<not> is_zero d \<and> d \<noteq> NaN)"

section \<open>The data model (types.ts)\<close>

datatype ShareType = Common | Preferred | OptionShares

datatype SafeType = PreMoney | PostMoney

text \<open>\<open>cap: number | 'uncapped'\<close>\<close>

datatype Cap = Uncapped | Capped number

record Founder =
  f_name :: string
  f_ownership :: number

record Pool =
  p_note :: string
  p_ownership :: number

text \<open>\<open>CompanyConfig\<close>: a missing list is the empty list (the constructor's defaults).\<close>

record CompanyConfig =
  founders :: "Founder list"
  pools :: "Pool list"

record CapTableEntry =
  e_name :: string
  e_shares :: number
  e_type :: ShareType

record Safe =
  s_cap :: Cap
  s_amount :: number
  s_name :: string
  s_converted :: bool
  s_discount :: "number option"
  s_type :: SafeType

record SnapshotEntry =
  se_name :: string
  se_shares :: number
  se_type :: ShareType
  se_percentage :: number

text \<open>
  A snapshot's label is a template string over the operation's arguments. The label is
  kept as the operation and the values it interpolates; the formatting of the numbers
  (\<open>toFixed\<close>, \<open>toLocaleString\<close>) is left out.
\<close>

datatype Label =
    InitialCapTable
  | EquityGrant string number
  | SafeSigned string number Cap "number option"
  | Round string number number

record EquitySnapshot =
  label :: Label
  entries :: "SnapshotEntry list"
  snap_totalShares :: number

record Company =
  shareCounter :: number
  capTable :: "CapTableEntry list"
  totalShares :: number
  safes :: "Safe list"
  history :: "EquitySnapshot list"

section \<open>The ledger (Company.ts)\<close>

text \<open>\<open>_addEntity\<close>\<close>

definition addEntity :: "string \<Rightarrow> number \<Rightarrow> ShareType \<Rightarrow> Company \<Rightarrow> Company" where
  "addEntity nm sh ty c =
     c\<lparr>capTable := capTable c @ [\<lparr>e_name = nm, e_shares = sh, e_type = ty\<rparr>],
       totalShares := js_add (totalShares c) sh\<rparr>"

text \<open>\<open>_saveSnapshot\<close>\<close>

definition snapshotEntry :: "number \<Rightarrow> CapTableEntry \<Rightarrow> SnapshotEntry" where
  "snapshotEntry tot e =
     \<lparr>se_name = e_name e, se_shares = e_shares e, se_type = e_type e,
      se_percentage = js_mul (js_div (e_shares e) tot) (Fin 100)\<rparr>"

definition mkSnapshot :: "Label \<Rightarrow> CapTableEntry list \<Rightarrow> number \<Rightarrow> EquitySnapshot" where
  "mkSnapshot lbl tbl tot =
     \<lparr>label = lbl, entries = map (snapshotEntry tot) tbl, snap_totalShares = tot\<rparr>"

definition saveSnapshot :: "Label \<Rightarrow> Company \<Rightarrow> Company" where
  "saveSnapshot lbl c =
     c\<lparr>history := history c @ [mkSnapshot lbl (capTable c) (totalShares c)]\<rparr>"

text \<open>The constructor: founders first, then pools, then the initial snapshot.\<close>

definition emptyCompany :: Company where
  "emptyCompany =
     \<lparr>shareCounter = Fin 0, capTable = [], totalShares = Fin 0, safes = [], history = []\<rparr>"

definition addFounder :: "number \<Rightarrow> Founder \<Rightarrow> Company \<Rightarrow> Company" where
  "addFounder base f c =
     addEntity (f_name f) (js_round (js_mul (js_div (f_ownership f) (Fin 100)) base)) Common c"

definition addPool :: "number \<Rightarrow> Pool \<Rightarrow> Company \<Rightarrow> Company" where
  "addPool base p c =
     addEntity (p_note p) (js_round (js_mul (js_div (p_ownership p) (Fin 100)) base))
       OptionShares c"

definition newCompany :: "CompanyConfig \<Rightarrow> number \<Rightarrow> Company" where
  "newCompany cfg initialShareCount =
     (let base = initialShareCount;
          c1 = fold (addFounder base) (founders cfg) emptyCompany;
          c2 = fold (addPool base) (pools cfg) c1
      in saveSnapshot InitialCapTable (c2\<lparr>safes := []\<rparr>))"

text \<open>\<open>giveEquity\<close>\<close>

definition giveEquity :: "number \<Rightarrow> string \<Rightarrow> ShareType \<Rightarrow> Company \<Rightarrow> Company" where
  "giveEquity percent nm ty c =
     (let newShares =
            js_round (js_mul (js_div percent (js_sub (Fin 100) percent)) (totalShares c))
      in saveSnapshot (EquityGrant nm percent) (addEntity nm newShares ty c))"

text \<open>\<open>signSafe\<close>\<close>

definition signSafe ::
  "Cap \<Rightarrow> number \<Rightarrow> string \<Rightarrow> number option \<Rightarrow> SafeType \<Rightarrow> Company \<Rightarrow> Company" where
  "signSafe cap amount nm discount safeType c =
     saveSnapshot (SafeSigned nm amount cap discount)
       (c\<lparr>safes := safes c @
            [\<lparr>s_cap = cap, s_amount = amount, s_name = nm, s_converted = False,
              s_discount = discount, s_type = safeType\<rparr>]\<rparr>)"

text \<open>
  \<open>pricedRound\<close> (its local \<open>postMoney\<close> is never read and is left out). The
  share count of one instrument, as both loops compute it:
  \<open>price\<close> is \<open>pricePerShare\<close>, \<open>tot\<close> is \<open>this.totalShares\<close> when the instrument is
  reached, \<open>pm\<close> is \<open>postMoneySafeShares\<close>.
\<close>

definition uncappedShares :: "number \<Rightarrow> Safe \<Rightarrow> number" where
  "uncappedShares price s =
     (let effectivePrice =
            (if truthy (s_discount s)
             then js_mul price (js_sub (Fin 1) (js_div (the (s_discount s)) (Fin 100)))
             else price)
      in js_round (js_div (s_amount s) effectivePrice))"

definition cappedShares :: "number \<Rightarrow> number \<Rightarrow> number \<Rightarrow> Safe \<Rightarrow> number" where
  "cappedShares price denom k s =
     (let capPricePerShare = js_div k denom;
          effectivePrice =
            (if truthy (s_discount s)
             then js_min capPricePerShare
                    (js_mul price (js_sub (Fin 1) (js_div (the (s_discount s)) (Fin 100))))
             else js_min capPricePerShare price)
      in js_round (js_div (s_amount s) effectivePrice))"

text \<open>First loop: the accumulator \<open>postMoneySafeShares\<close>; \<open>this.totalShares\<close> does not
  change during this loop.\<close>

definition prePassStep :: "number \<Rightarrow> number \<Rightarrow> Safe \<Rightarrow> number \<Rightarrow> number" where
  "prePassStep price tot s pm =
     (if \<not> s_converted s \<and> s_type s = PostMoney then
        (case s_cap s of
           Uncapped \<Rightarrow> js_add pm (uncappedShares price s)
         | Capped k \<Rightarrow> js_add pm (cappedShares price (js_add tot pm) k s))
      else pm)"

definition postMoneySafeShares :: "number \<Rightarrow> number \<Rightarrow> Safe list \<Rightarrow> number" where
  "postMoneySafeShares price tot ss = fold (prePassStep price tot) ss (Fin 0)"

text \<open>Second loop: the share count of an unconverted instrument.\<close>

definition safeShares :: "number \<Rightarrow> number \<Rightarrow> number \<Rightarrow> Safe \<Rightarrow> number" where
  "safeShares price pm tot s =
     (if s_type s = PostMoney then
        (case s_cap s of
           Uncapped \<Rightarrow> uncappedShares price s
         | Capped k \<Rightarrow> cappedShares price (js_add tot pm) k s)
      else
        (case s_cap s of
           Uncapped \<Rightarrow> uncappedShares price s
         | Capped k \<Rightarrow> cappedShares price tot k s))"

text \<open>Second loop: each instrument that converts appends an entry, which changes
  \<open>this.totalShares\<close> for the instruments after it, and has its flag set.\<close>

fun convertSafes :: "number \<Rightarrow> number \<Rightarrow> Safe list \<Rightarrow> Company \<Rightarrow> Safe list \<times> Company" where
  "convertSafes price pm [] c = ([], c)"
| "convertSafes price pm (s # ss) c =
     (if \<not> s_converted s then
        (let shares = safeShares price pm (totalShares c) s in
         if js_gt shares (Fin 0) then
           (let (ss', c') =
                  convertSafes price pm ss (addEntity (s_name s @ '' (SAFE)'') shares Preferred c)
            in (s\<lparr>s_converted := True\<rparr> # ss', c'))
         else
           (let (ss', c') = convertSafes price pm ss c in (s # ss', c')))
      else
        (let (ss', c') = convertSafes price pm ss c in (s # ss', c')))"

definition pricedRound :: "number \<Rightarrow> number \<Rightarrow> string \<Rightarrow> Company \<Rightarrow> Company" where
  "pricedRound preMoneyValuation newMoney nm c =
     (let pricePerShare = js_div preMoneyValuation (totalShares c);
          pm = postMoneySafeShares pricePerShare (totalShares c) (safes c);
          (ss', c1) = convertSafes pricePerShare pm (safes c) c;
          seriesShares = js_round (js_div newMoney pricePerShare);
          c2 = addEntity nm seriesShares Preferred (c1\<lparr>safes := ss'\<rparr>)
      in saveSnapshot (Round nm preMoneyValuation newMoney) c2)"

text \<open>The states a caller can reach: the constructor, then any of the three operations
  with any arguments.\<close>

inductive reachable :: "Company \<Rightarrow> bool" where
  r_new: "reachable (newCompany cfg base)"
| r_give: "reachable c \<Longrightarrow> reachable (giveEquity percent nm ty c)"
| r_sign: "reachable c \<Longrightarrow> reachable (signSafe cap amount nm discount safeType c)"
| r_round: "reachable c \<Longrightarrow> reachable (pricedRound pre newMoney nm c)"

section \<open>Notions of the specification\<close>




text \<open>Example ledgers: one founder holding 90% of the default base of 1,000,000
  shares; one founder whose 0.00001% rounds to no share at all.\<close>

definition company900k :: Company where
  "company900k =
     newCompany \<lparr>founders = [\<lparr>f_name = ''A'', f_ownership = Fin 90\<rparr>], pools = []\<rparr>
       (Fin 1000000)"

definition companyZero :: Company where
  "companyZero =
     newCompany \<lparr>founders = [\<lparr>f_name = ''A'', f_ownership = Fin (1 / 100000)\<rparr>], pools = []\<rparr>
       (Fin 1000000)"


section \<open>Invariants of the ledger\<close>



section \<open>The conversions of a priced round, instrument by instrument\<close>

text \<open>
  \<open>computedShares\<close> lists what the second loop of \<open>pricedRound\<close> assigns to its
  variable \<open>shares\<close> for each instrument, in order: \<open>None\<close> for an instrument that is
  already converted (the loop skips it), \<open>Some shares\<close> otherwise. \<open>tot\<close> is
  \<open>this.totalShares\<close> when the instrument is reached: it has grown by the shares of
  every instrument before it that converted.
\<close>

fun computedShares :: "number \<Rightarrow> number \<Rightarrow> number \<Rightarrow> Safe list \<Rightarrow> number option list" where
  "computedShares price pm tot [] = []"
| "computedShares price pm tot (s # ss) =
     (if \<not> s_converted s then
        (let shares = safeShares price pm tot s in
         Some shares #
           computedShares price pm (if js_gt shares (Fin 0) then js_add tot shares else tot) ss)
      else None # computedShares price pm tot ss)"

text \<open>What the loop does with an instrument, given its share count: the instrument
  afterwards, and the entries appended for it.\<close>

fun afterRound :: "Safe \<Rightarrow> number option \<Rightarrow> Safe" where
  "afterRound s None = s"
| "afterRound s (Some sh) = (if js_gt sh (Fin 0) then s\<lparr>s_converted := True\<rparr> else s)"

fun safeEntry :: "Safe \<Rightarrow> number option \<Rightarrow> CapTableEntry list" where
  "safeEntry s None = []"
| "safeEntry s (Some sh) =
     (if js_gt sh (Fin 0)
      then [\<lparr>e_name = s_name s @ '' (SAFE)'', e_shares = sh, e_type = Preferred\<rparr>]
      else [])"

text \<open>The price per share of a round, and the share counts of its instruments.\<close>

definition roundPrice :: "number \<Rightarrow> Company \<Rightarrow> number" where
  "roundPrice pre c = js_div pre (totalShares c)"

definition roundShares :: "number \<Rightarrow> Company \<Rightarrow> number option list" where
  "roundShares pre c =
     computedShares (roundPrice pre c)
       (postMoneySafeShares (roundPrice pre c) (totalShares c) (safes c))
       (totalShares c) (safes c)"

text \<open>\<open>this.totalShares\<close> when the second loop reaches the instrument at index \<open>i\<close>:
  the total before the round plus the shares of the instruments before \<open>i\<close> that
  converted in this round.\<close>

definition totalWhenReached :: "number \<Rightarrow> Company \<Rightarrow> nat \<Rightarrow> number" where
  "totalWhenReached pre c i =
     foldl js_add (totalShares c)
       (map e_shares (concat (map2 safeEntry (take i (safes c)) (take i (roundShares pre c)))))"

text \<open>
  The round price after the discount of an instrument: the expression both loops repeat
  in each of their branches. \<open>accumulatedBefore pre c m\<close> is the accumulator
  \<open>postMoneySafeShares\<close> when the first loop reaches the instrument at index \<open>m\<close>; at
  \<open>length (safes c)\<close> it is the final value, which the second loop reads.
\<close>

definition discountedPrice :: "number \<Rightarrow> number option \<Rightarrow> number" where
  "discountedPrice price d =
     (if truthy d then js_mul price (js_sub (Fin 1) (js_div (the d) (Fin 100))) else price)"

definition accumulatedBefore :: "number \<Rightarrow> Company \<Rightarrow> nat \<Rightarrow> number" where
  "accumulatedBefore pre c m =
     postMoneySafeShares (roundPrice pre c) (totalShares c) (take m (safes c))"

text \<open>Example ledgers for priced rounds: one founder with all of 1,000,000 shares, then
  two uncapped SAFEs, of 100,000 and of 4.\<close>

definition company1000k :: Company where
  "company1000k =
     newCompany \<lparr>founders = [\<lparr>f_name = ''A'', f_ownership = Fin 100\<rparr>], pools = []\<rparr>
       (Fin 1000000)"

definition companyMixed :: Company where
  "companyMixed =
     signSafe Uncapped (Fin 4) ''T'' None PostMoney
       (signSafe Uncapped (Fin 100000) ''S'' None PostMoney company1000k)"

text \<open>Example ledgers with outstanding SAFEs, and the company without any entry.\<close>

definition companyTwoCapped :: Company where
  "companyTwoCapped =
     signSafe (Capped (Fin 5000000)) (Fin 100000) ''T'' None PreMoney
       (signSafe (Capped (Fin 5000000)) (Fin 100000) ''S'' None PreMoney company1000k)"

definition companyEmpty :: Company where
  "companyEmpty = newCompany \<lparr>founders = [], pools = []\<rparr> (Fin 1000000)"

text \<open>A capped post-money SAFE signed first, then two uncapped post-money SAFEs with the
  same amount and the same discount of 20%.\<close>

definition companyPostMoney :: Company where
  "companyPostMoney =
     signSafe Uncapped (Fin 100000) ''T'' (Some (Fin 20)) PostMoney
       (signSafe Uncapped (Fin 100000) ''S'' (Some (Fin 20)) PostMoney
          (signSafe (Capped (Fin 5000000)) (Fin 100000) ''U'' None PostMoney company1000k))"

section \<open>The preconditions of the specification\<close>




text \<open>The recorded totals of a history, oldest first, and what it means for them to be
  non-decreasing (under \<open><=\<close> on numbers); a cap table without a negative or NaN share
  count.\<close>

definition historyTotals :: "Company \<Rightarrow> number list" where
  "historyTotals c = map snap_totalShares (history c)"







section \<open>Evaluating floors of rational numerals\<close>

lemma floor_rat_numeral [simp]:
  "\<lfloor>numeral a / numeral b :: rat\<rfloor> = numeral a div numeral b"
  by (metis floor_divide_of_int_eq of_int_numeral)

lemma floor_rat_neg_numeral [simp]:
  "\<lfloor>- (numeral a / numeral b) :: rat\<rfloor> = - numeral a div numeral b"
  by (metis divide_minus_left floor_divide_of_int_eq of_int_neg_numeral of_int_numeral)

lemma floor_rat_one_numeral [simp]:
  "\<lfloor>1 / numeral b :: rat\<rfloor> = 1 div numeral b"
  by (metis floor_divide_of_int_eq of_int_1 of_int_numeral)

section \<open>What each operation does to the fields\<close>

lemma addEntity_fields [simp]:
  "capTable (addEntity nm sh ty c) = capTable c @ [\<lparr>e_name = nm, e_shares = sh, e_type = ty\<rparr>]"
  "totalShares (addEntity nm sh ty c) = js_add (totalShares c) sh"
  "safes (addEntity nm sh ty c) = safes c"
  "history (addEntity nm sh ty c) = history c"
  by (simp_all add: addEntity_def)

lemma saveSnapshot_fields [simp]:
  "capTable (saveSnapshot lbl c) = capTable c"
  "totalShares (saveSnapshot lbl c) = totalShares c"
  "safes (saveSnapshot lbl c) = safes c"
  "history (saveSnapshot lbl c) = history c @ [mkSnapshot lbl (capTable c) (totalShares c)]"
  by (simp_all add: saveSnapshot_def)

lemma mkSnapshot_fields [simp]:
  "label (mkSnapshot lbl tbl tot) = lbl"
  "entries (mkSnapshot lbl tbl tot) = map (snapshotEntry tot) tbl"
  "snap_totalShares (mkSnapshot lbl tbl tot) = tot"
  by (simp_all add: mkSnapshot_def)

lemma snapshotEntry_fields [simp]:
  "se_name (snapshotEntry tot e) = e_name e"
  "se_shares (snapshotEntry tot e) = e_shares e"
  "se_type (snapshotEntry tot e) = e_type e"
  "se_percentage (snapshotEntry tot e) = js_mul (js_div (e_shares e) tot) (Fin 100)"
  by (simp_all add: snapshotEntry_def)

lemma signSafe_fields:
  "capTable (signSafe cap amount nm discount safeType c) = capTable c"
  "totalShares (signSafe cap amount nm discount safeType c) = totalShares c"
  "safes (signSafe cap amount nm discount safeType c) =
     safes c @ [\<lparr>s_cap = cap, s_amount = amount, s_name = nm, s_converted = False,
                 s_discount = discount, s_type = safeType\<rparr>]"
  "history (signSafe cap amount nm discount safeType c) =
     history c @ [mkSnapshot (SafeSigned nm amount cap discount) (capTable c) (totalShares c)]"
  by (simp_all add: signSafe_def)

lemma giveEquity_fields:
  "capTable (giveEquity percent nm ty c) =
     capTable c @
       [\<lparr>e_name = nm,
         e_shares = js_round (js_mul (js_div percent (js_sub (Fin 100) percent)) (totalShares c)),
         e_type = ty\<rparr>]"
  "totalShares (giveEquity percent nm ty c) =
     js_add (totalShares c)
       (js_round (js_mul (js_div percent (js_sub (Fin 100) percent)) (totalShares c)))"
  "safes (giveEquity percent nm ty c) = safes c"
  "history (giveEquity percent nm ty c) =
     history c @
       [mkSnapshot (EquityGrant nm percent) (capTable (giveEquity percent nm ty c))
          (totalShares (giveEquity percent nm ty c))]"
  by (simp_all add: giveEquity_def Let_def)

text \<open>Every operation ends by saving a snapshot of the state it leaves.\<close>

lemma newCompany_saves: "\<exists>c0. newCompany cfg base = saveSnapshot InitialCapTable c0"
  unfolding newCompany_def Let_def by blast

lemma giveEquity_saves: "\<exists>c0. giveEquity percent nm ty c = saveSnapshot (EquityGrant nm percent) c0"
  unfolding giveEquity_def Let_def by blast

lemma signSafe_saves:
  "\<exists>c0. signSafe cap amount nm discount safeType c = saveSnapshot (SafeSigned nm amount cap discount) c0"
  unfolding signSafe_def by blast

lemma pricedRound_saves: "\<exists>c0. pricedRound pre newMoney nm c = saveSnapshot (Round nm pre newMoney) c0"
  unfolding pricedRound_def Let_def by (auto split: prod.splits)

lemma reachable_last_snapshot:
  assumes "reachable c"
  shows "history c \<noteq> [] \<and> (\<exists>lbl. last (history c) = mkSnapshot lbl (capTable c) (totalShares c))"
proof -
  from assms obtain lbl c0 where "c = saveSnapshot lbl c0"
    by (cases rule: reachable.cases)
       (metis newCompany_saves giveEquity_saves signSafe_saves pricedRound_saves)+
  then show ?thesis by auto
qed

section \<open>Recording a SAFE\<close>

text \<open>
  C7. \<open>signSafe\<close> leaves the cap table and \<open>totalShares\<close> as they are, appends one
  unconverted instrument to the list of SAFEs, and appends one snapshot that is the
  preceding snapshot with another label: the same entries, percentages and total.
\<close>

theorem signSafe_frame:
  assumes "reachable c"
  shows "capTable (signSafe cap amount nm discount safeType c) = capTable c
       \<and> totalShares (signSafe cap amount nm discount safeType c) = totalShares c
       \<and> safes (signSafe cap amount nm discount safeType c) =
           safes c @ [\<lparr>s_cap = cap, s_amount = amount, s_name = nm, s_converted = False,
                       s_discount = discount, s_type = safeType\<rparr>]
       \<and> history c \<noteq> []
       \<and> history (signSafe cap amount nm discount safeType c) =
           history c @ [(last (history c))\<lparr>label := SafeSigned nm amount cap discount\<rparr>]"
proof -
  from reachable_last_snapshot [OF assms] obtain lbl where
    ne: "history c \<noteq> []" and l: "last (history c) = mkSnapshot lbl (capTable c) (totalShares c)"
    by blast
  have "(last (history c))\<lparr>label := SafeSigned nm amount cap discount\<rparr> =
        mkSnapshot (SafeSigned nm amount cap discount) (capTable c) (totalShares c)"
    by (simp add: l mkSnapshot_def)
  with ne show ?thesis by (simp add: signSafe_fields)
qed

theorem signSafe_frame_witness:
  "reachable company900k
   \<and> capTable (signSafe (Capped (Fin 5000000)) (Fin 150000) ''I'' (Some (Fin 10)) PostMoney company900k)
       = capTable company900k
   \<and> totalShares (signSafe (Capped (Fin 5000000)) (Fin 150000) ''I'' (Some (Fin 10)) PostMoney company900k)
       = Fin 900000
   \<and> map s_converted
       (safes (signSafe (Capped (Fin 5000000)) (Fin 150000) ''I'' (Some (Fin 10)) PostMoney company900k))
       = [False]
   \<and> history (signSafe (Capped (Fin 5000000)) (Fin 150000) ''I'' (Some (Fin 10)) PostMoney company900k)
       = history company900k @
           [(last (history company900k))
              \<lparr>label := SafeSigned ''I'' (Fin 150000) (Capped (Fin 5000000)) (Some (Fin 10))\<rparr>]"
proof -
  have r: "reachable company900k"
    unfolding company900k_def by (rule r_new)
  have t: "totalShares company900k = Fin 900000" and s: "safes company900k = []"
    by code_simp+
  show ?thesis
    using r t s
      signSafe_frame [OF r, of "Capped (Fin 5000000)" "Fin 150000" "''I''" "Some (Fin 10)" PostMoney]
    by simp
qed

section \<open>The invariants hold in every reachable state\<close>






lemma convertSafes_Cons:
  "convertSafes price pm (s # ss) c =
     (if \<not> s_converted s \<and> js_gt (safeShares price pm (totalShares c) s) (Fin 0) then
        (s\<lparr>s_converted := True\<rparr> #
           fst (convertSafes price pm ss
                  (addEntity (s_name s @ '' (SAFE)'') (safeShares price pm (totalShares c) s) Preferred c)),
         snd (convertSafes price pm ss
                  (addEntity (s_name s @ '' (SAFE)'') (safeShares price pm (totalShares c) s) Preferred c)))
      else (s # fst (convertSafes price pm ss c), snd (convertSafes price pm ss c)))"
  by (simp add: Let_def case_prod_beta)

declare convertSafes.simps(2) [simp del]









lemma pricedRound_unfold:
  "pricedRound pre newMoney nm c =
     saveSnapshot (Round nm pre newMoney)
       (addEntity nm (js_round (js_div newMoney (js_div pre (totalShares c)))) Preferred
         ((snd (convertSafes (js_div pre (totalShares c))
                  (postMoneySafeShares (js_div pre (totalShares c)) (totalShares c) (safes c))
                  (safes c) c))
          \<lparr>safes := fst (convertSafes (js_div pre (totalShares c))
                  (postMoneySafeShares (js_div pre (totalShares c)) (totalShares c) (safes c))
                  (safes c) c)\<rparr>))"
  by (simp add: pricedRound_def Let_def case_prod_beta)




section \<open>Snapshots: totals and percentages\<close>




lemma giveEquity_changes: "giveEquity percent nm ty c \<noteq> c"
proof
  assume "giveEquity percent nm ty c = c"
  then have "length (history (giveEquity percent nm ty c)) = length (history c)" by simp
  then show False by (simp add: giveEquity_fields)
qed

text \<open>
  C3, as the code has it. \<open>giveEquity\<close> checks nothing and has no error to raise: for
  every percent it appends one entry with \<open>round(percent / (100 - percent) * total)\<close>
  shares, adds them to the total and saves one snapshot, so the ledger always changes.
  On a positive total, percent = 100 records Infinity shares and an Infinity total; a
  percent above 100 on a total of at least one share records a negative share count.
\<close>

theorem giveEquity_unchecked:
  "capTable (giveEquity percent nm ty c) =
     capTable c @
       [\<lparr>e_name = nm,
         e_shares = js_round (js_mul (js_div percent (js_sub (Fin 100) percent)) (totalShares c)),
         e_type = ty\<rparr>]
   \<and> totalShares (giveEquity percent nm ty c) =
       js_add (totalShares c)
         (js_round (js_mul (js_div percent (js_sub (Fin 100) percent)) (totalShares c)))
   \<and> length (history (giveEquity percent nm ty c)) = length (history c) + 1
   \<and> giveEquity percent nm ty c \<noteq> c
   \<and> (totalShares c = Fin t \<and> 0 < t \<longrightarrow>
        e_shares (last (capTable (giveEquity (Fin 100) nm ty c))) = PInf
        \<and> totalShares (giveEquity (Fin 100) nm ty c) = PInf)
   \<and> (totalShares c = Fin t \<and> 1 \<le> t \<and> 100 < q \<longrightarrow>
        js_lt (e_shares (last (capTable (giveEquity (Fin q) nm ty c)))) (Fin 0))"
proof -
  have inf: "e_shares (last (capTable (giveEquity (Fin 100) nm ty c))) = PInf
        \<and> totalShares (giveEquity (Fin 100) nm ty c) = PInf"
    if "totalShares c = Fin t" "0 < t"
    using that
    by (simp add: giveEquity_fields js_sub_def js_add_def js_div_def js_mul_def mk_inf_def)
  have neg: "js_lt (e_shares (last (capTable (giveEquity (Fin q) nm ty c)))) (Fin 0)"
    if "totalShares c = Fin t" "1 \<le> t" "100 < q"
  proof -
    have x: "q / (100 - q) * t < - 1"
    proof -
      have a: "q / (q - 100) > 1" using that(3) by simp
      then have "q / (q - 100) * 1 \<le> q / (q - 100) * t"
        using that(2) by (intro mult_left_mono) simp_all
      with a have "q / (q - 100) * t > 1" by simp
      moreover have "q / (100 - q) = - (q / (q - 100))"
        by (metis divide_minus_right minus_diff_eq)
      ultimately show ?thesis by simp
    qed
    define n where "n = \<lfloor>q / (100 - q) * t + 1 / 2\<rfloor>"
    from x have fl: "n < 0"
      unfolding n_def by (simp add: floor_less_iff)
    have "js_mul (js_div (Fin q) (js_sub (Fin 100) (Fin q))) (Fin t) = Fin (q / (100 - q) * t)"
      using that by (simp add: js_sub_def js_add_def js_div_def js_mul_def)
    then have "e_shares (last (capTable (giveEquity (Fin q) nm ty c)))
               = js_round (Fin (q / (100 - q) * t))"
      by (simp add: giveEquity_fields that(1))
    also have "\<dots> = Fin (of_int n)"
      unfolding js_round.simps Let_def n_def [symmetric] using fl by simp
    finally have "e_shares (last (capTable (giveEquity (Fin q) nm ty c))) = Fin (of_int n)" .
    then show ?thesis using fl by (simp add: js_lt_def)
  qed
  have basic: "capTable (giveEquity percent nm ty c) =
     capTable c @
       [\<lparr>e_name = nm,
         e_shares = js_round (js_mul (js_div percent (js_sub (Fin 100) percent)) (totalShares c)),
         e_type = ty\<rparr>]
   \<and> totalShares (giveEquity percent nm ty c) =
       js_add (totalShares c)
         (js_round (js_mul (js_div percent (js_sub (Fin 100) percent)) (totalShares c)))
   \<and> length (history (giveEquity percent nm ty c)) = length (history c) + 1
   \<and> giveEquity percent nm ty c \<noteq> c"
    by (simp add: giveEquity_fields giveEquity_changes)
  from basic inf neg show ?thesis by blast
qed

theorem giveEquity_unchecked_witness:
  "totalShares company900k = Fin 900000 \<and> (0::rat) < 900000 \<and> (1::rat) \<le> 900000 \<and> (100::rat) < 150
   \<and> e_shares (last (capTable (giveEquity (Fin 100) ''X'' Common company900k))) = PInf
   \<and> totalShares (giveEquity (Fin 100) ''X'' Common company900k) = PInf
   \<and> js_lt (e_shares (last (capTable (giveEquity (Fin 150) ''X'' Common company900k)))) (Fin 0)"
proof -
  have t: "totalShares company900k = Fin 900000"
    by code_simp
  from giveEquity_unchecked [of "Fin 0" "''X''" Common company900k 900000 150] t
  show ?thesis by simp
qed

text \<open>
  C3 as stated fails: \<open>giveEquity(100, "X")\<close> on the ledger of 900,000 shares returns
  normally with an entry of Infinity shares appended, the total Infinity and a second
  snapshot saved; \<open>giveEquity(150, "X")\<close> records -2,700,000 shares.
\<close>

theorem giveEquity_unchecked_counterexample:
  "capTable (giveEquity (Fin 100) ''X'' Common company900k) =
     capTable company900k @ [\<lparr>e_name = ''X'', e_shares = PInf, e_type = Common\<rparr>]
   \<and> totalShares company900k = Fin 900000
   \<and> totalShares (giveEquity (Fin 100) ''X'' Common company900k) = PInf
   \<and> length (history (giveEquity (Fin 100) ''X'' Common company900k)) = 2
   \<and> length (history company900k) = 1
   \<and> giveEquity (Fin 100) ''X'' Common company900k \<noteq> company900k
   \<and> e_shares (last (capTable (giveEquity (Fin 150) ''X'' Common company900k))) = Fin (- 2700000)"
proof -
  have 1: "capTable (giveEquity (Fin 100) ''X'' Common company900k) =
     capTable company900k @ [\<lparr>e_name = ''X'', e_shares = PInf, e_type = Common\<rparr>]"
    by code_simp
  have 2: "totalShares company900k = Fin 900000"
    by code_simp
  have 3: "totalShares (giveEquity (Fin 100) ''X'' Common company900k) = PInf"
    by code_simp
  have 4: "length (history (giveEquity (Fin 100) ''X'' Common company900k)) = 2"
    by code_simp
  have 5: "length (history company900k) = 1"
    by code_simp
  have 6: "e_shares (last (capTable (giveEquity (Fin 150) ''X'' Common company900k))) = Fin (- 2700000)"
    by code_simp
  from 4 5 have "giveEquity (Fin 100) ''X'' Common company900k \<noteq> company900k"
    by auto
  with 1 2 3 4 5 6 show ?thesis by simp
qed

section \<open>Snapshots of a ledger whose total is 0\<close>

lemma zero_total_percentage:
  "\<not> is_finite (js_mul (js_div x (Fin 0)) (Fin 100))
   \<and> (is_zero x \<longrightarrow> js_mul (js_div x (Fin 0)) (Fin 100) = NaN)"
  by (cases x) (simp_all add: js_mul_def js_div_def mk_inf_def)

text \<open>
  C10. \<open>_saveSnapshot\<close> divides by \<open>totalShares\<close> without a guard. On a ledger with a
  non-empty cap table and the total 0 it appends a snapshot in which no percentage is a
  finite number: the percentage of an entry with 0 shares is \<open>0 / 0 * 100\<close>, NaN, and
  that of any other entry is an infinity. Nothing is raised: the snapshot is saved. The
  same holds of the last snapshot of a reachable ledger. The witness is the company
  whose only founder rounds to 0 shares.
\<close>

theorem zero_total_snapshot:
  assumes "totalShares c = Fin 0" "capTable c \<noteq> []"
  shows "history (saveSnapshot lbl c) = history c @ [mkSnapshot lbl (capTable c) (Fin 0)]
       \<and> entries (mkSnapshot lbl (capTable c) (Fin 0)) \<noteq> []
       \<and> (\<forall>e\<in>set (entries (mkSnapshot lbl (capTable c) (Fin 0))).
            \<not> is_finite (se_percentage e) \<and> (is_zero (se_shares e) \<longrightarrow> se_percentage e = NaN))
       \<and> (reachable c \<longrightarrow>
            (\<forall>e\<in>set (entries (last (history c))).
               \<not> is_finite (se_percentage e) \<and> (is_zero (se_shares e) \<longrightarrow> se_percentage e = NaN)))"
proof -
  have a: "\<forall>e\<in>set (entries (mkSnapshot l (capTable c) (Fin 0))).
            \<not> is_finite (se_percentage e) \<and> (is_zero (se_shares e) \<longrightarrow> se_percentage e = NaN)" for l
    using zero_total_percentage by simp
  have b: "\<forall>e\<in>set (entries (last (history c))).
               \<not> is_finite (se_percentage e) \<and> (is_zero (se_shares e) \<longrightarrow> se_percentage e = NaN)"
    if "reachable c"
  proof -
    from reachable_last_snapshot [OF that] obtain l where
      "last (history c) = mkSnapshot l (capTable c) (totalShares c)" by blast
    with a [of l] assms(1) show ?thesis by simp
  qed
  show ?thesis using a [of lbl] b assms by simp
qed

theorem zero_total_snapshot_witness:
  "totalShares companyZero = Fin 0 \<and> capTable companyZero \<noteq> [] \<and> reachable companyZero
   \<and> map se_shares (entries (last (history companyZero))) = [Fin 0]
   \<and> map se_percentage (entries (last (history companyZero))) = [NaN]"
proof -
  have t: "totalShares companyZero = Fin 0"
    by code_simp
  have n: "capTable companyZero = [\<lparr>e_name = ''A'', e_shares = Fin 0, e_type = Common\<rparr>]"
    by code_simp
  have e: "entries (last (history companyZero)) =
             [snapshotEntry (Fin 0) \<lparr>e_name = ''A'', e_shares = Fin 0, e_type = Common\<rparr>]"
    by code_simp
  have r: "reachable companyZero"
    unfolding companyZero_def by (rule r_new)
  have ne: "capTable companyZero \<noteq> []" by (simp add: n)
  from zero_total_snapshot [OF t ne, of InitialCapTable] r
  have "map se_percentage (entries (last (history companyZero))) = [NaN]"
    by (simp add: e)
  with t ne r show ?thesis by (simp add: e)
qed

section \<open>The conversion loop of a priced round\<close>

lemma length_computedShares [simp]: "length (computedShares price pm tot ss) = length ss"
  by (induction ss arbitrary: tot) (simp_all add: Let_def)

lemma convertSafes_char:
  "convertSafes price pm ss c =
     (map2 afterRound ss (computedShares price pm (totalShares c) ss),
      c\<lparr>capTable := capTable c @ concat (map2 safeEntry ss (computedShares price pm (totalShares c) ss)),
        totalShares := foldl js_add (totalShares c)
          (map e_shares (concat (map2 safeEntry ss (computedShares price pm (totalShares c) ss))))\<rparr>)"
proof (induction ss arbitrary: c)
  case Nil
  show ?case by simp
next
  case (Cons s ss)
  show ?case
    by (simp add: convertSafes_Cons Cons.IH Let_def addEntity_def)
qed

lemma pricedRound_char:
  "safes (pricedRound pre newMoney nm c) = map2 afterRound (safes c) (roundShares pre c)"
  "capTable (pricedRound pre newMoney nm c) =
     capTable c @ concat (map2 safeEntry (safes c) (roundShares pre c)) @
       [\<lparr>e_name = nm, e_shares = js_round (js_div newMoney (roundPrice pre c)), e_type = Preferred\<rparr>]"
  "totalShares (pricedRound pre newMoney nm c) =
     js_add (foldl js_add (totalShares c)
               (map e_shares (concat (map2 safeEntry (safes c) (roundShares pre c)))))
       (js_round (js_div newMoney (roundPrice pre c)))"
  "history (pricedRound pre newMoney nm c) =
     history c @ [mkSnapshot (Round nm pre newMoney) (capTable (pricedRound pre newMoney nm c))
                    (totalShares (pricedRound pre newMoney nm c))]"
  by (simp_all add: pricedRound_unfold convertSafes_char roundShares_def roundPrice_def)

lemma computedShares_nth:
  "i < length ss \<Longrightarrow>
   computedShares price pm tot ss ! i =
     (if s_converted (ss ! i) then None
      else Some (safeShares price pm
             (foldl js_add tot
                (map e_shares (concat (map2 safeEntry (take i ss)
                                         (take i (computedShares price pm tot ss))))))
             (ss ! i)))"
proof (induction ss arbitrary: tot i)
  case Nil
  then show ?case by simp
next
  case (Cons s ss)
  show ?case
  proof (cases i)
    case 0
    then show ?thesis by (simp add: Let_def)
  next
    case (Suc j)
    with Cons.prems have j: "j < length ss" by simp
    show ?thesis
      using Cons.IH [OF j] by (simp add: Suc Let_def)
  qed
qed

lemma roundShares_nth:
  assumes "i < length (safes c)"
  shows "roundShares pre c ! i =
     (if s_converted (safes c ! i) then None
      else Some (safeShares (roundPrice pre c)
                   (postMoneySafeShares (roundPrice pre c) (totalShares c) (safes c))
                   (totalWhenReached pre c i) (safes c ! i)))"
  using computedShares_nth [OF assms] by (simp add: roundShares_def totalWhenReached_def)

lemma length_roundShares [simp]: "length (roundShares pre c) = length (safes c)"
  by (simp add: roundShares_def)

lemma map2_nth:
  "i < length xs \<Longrightarrow> length ys = length xs \<Longrightarrow> map2 f xs ys ! i = f (xs ! i) (ys ! i)"
  by simp

lemma safeEntry_in_round:
  assumes "i < length (safes c)" "e \<in> set (safeEntry (safes c ! i) (roundShares pre c ! i))"
  shows "e \<in> set (capTable (pricedRound pre newMoney nm c))"
proof -
  have "(safes c ! i, roundShares pre c ! i) \<in> set (zip (safes c) (roundShares pre c))"
    using assms(1) by (auto simp: set_zip)
  with assms(2) show ?thesis
    by (auto simp: pricedRound_char(2))
qed

lemma is_zero_not_gt: "is_zero x \<Longrightarrow> \<not> js_gt x (Fin 0)"
  by (cases x) (simp_all add: js_gt_def js_lt_def)

text \<open>
  C8. In a priced round the second loop goes through the instruments in order. The
  list of instruments keeps its length; an instrument that was already converted is left
  as it is and gets no entry. For an instrument that was not converted, with \<open>sh\<close> its
  computed share count: if \<open>sh > 0\<close>, the preferred entry named after the instrument
  with the suffix \<open>(SAFE)\<close> and \<open>sh\<close> shares is appended and the instrument is the same
  with \<open>converted\<close> set; if \<open>sh\<close> is zero, the instrument is unchanged, still
  unconverted, and no entry is appended for it. The cap table after the round is the
  one before, the entries of the instruments that converted, in order, and the entry of
  the round: the round always completes. In the witness one SAFE converts to 10,000
  shares and another one rounds to 0 shares.
\<close>

theorem pricedRound_conversions:
  "length (safes (pricedRound pre newMoney nm c)) = length (safes c)
   \<and> capTable (pricedRound pre newMoney nm c) =
       capTable c @ concat (map2 safeEntry (safes c) (roundShares pre c)) @
         [\<lparr>e_name = nm, e_shares = js_round (js_div newMoney (roundPrice pre c)), e_type = Preferred\<rparr>]
   \<and> (\<forall>i<length (safes c).
        (s_converted (safes c ! i) \<longrightarrow>
           safes (pricedRound pre newMoney nm c) ! i = safes c ! i
           \<and> safeEntry (safes c ! i) (roundShares pre c ! i) = [])
      \<and> (\<not> s_converted (safes c ! i) \<longrightarrow>
           (\<exists>sh. roundShares pre c ! i = Some sh
              \<and> sh = safeShares (roundPrice pre c)
                       (postMoneySafeShares (roundPrice pre c) (totalShares c) (safes c))
                       (totalWhenReached pre c i) (safes c ! i)
              \<and> (js_gt sh (Fin 0) \<longrightarrow>
                   safes (pricedRound pre newMoney nm c) ! i = (safes c ! i)\<lparr>s_converted := True\<rparr>
                   \<and> safeEntry (safes c ! i) (roundShares pre c ! i) =
                       [\<lparr>e_name = s_name (safes c ! i) @ '' (SAFE)'', e_shares = sh, e_type = Preferred\<rparr>]
                   \<and> \<lparr>e_name = s_name (safes c ! i) @ '' (SAFE)'', e_shares = sh, e_type = Preferred\<rparr>
                       \<in> set (capTable (pricedRound pre newMoney nm c)))
              \<and> (is_zero sh \<longrightarrow>
                   safes (pricedRound pre newMoney nm c) ! i = safes c ! i
                   \<and> \<not> s_converted (safes (pricedRound pre newMoney nm c) ! i)
                   \<and> safeEntry (safes c ! i) (roundShares pre c ! i) = []))))"
proof -
  have len: "length (safes (pricedRound pre newMoney nm c)) = length (safes c)"
    by (simp add: pricedRound_char(1))
  have nth: "safes (pricedRound pre newMoney nm c) ! i = afterRound (safes c ! i) (roundShares pre c ! i)"
    if "i < length (safes c)" for i
    using that by (simp add: pricedRound_char(1))
  have pt: "(s_converted (safes c ! i) \<longrightarrow>
           safes (pricedRound pre newMoney nm c) ! i = safes c ! i
           \<and> safeEntry (safes c ! i) (roundShares pre c ! i) = [])
      \<and> (\<not> s_converted (safes c ! i) \<longrightarrow>
           (\<exists>sh. roundShares pre c ! i = Some sh
              \<and> sh = safeShares (roundPrice pre c)
                       (postMoneySafeShares (roundPrice pre c) (totalShares c) (safes c))
                       (totalWhenReached pre c i) (safes c ! i)
              \<and> (js_gt sh (Fin 0) \<longrightarrow>
                   safes (pricedRound pre newMoney nm c) ! i = (safes c ! i)\<lparr>s_converted := True\<rparr>
                   \<and> safeEntry (safes c ! i) (roundShares pre c ! i) =
                       [\<lparr>e_name = s_name (safes c ! i) @ '' (SAFE)'', e_shares = sh, e_type = Preferred\<rparr>]
                   \<and> \<lparr>e_name = s_name (safes c ! i) @ '' (SAFE)'', e_shares = sh, e_type = Preferred\<rparr>
                       \<in> set (capTable (pricedRound pre newMoney nm c)))
              \<and> (is_zero sh \<longrightarrow>
                   safes (pricedRound pre newMoney nm c) ! i = safes c ! i
                   \<and> \<not> s_converted (safes (pricedRound pre newMoney nm c) ! i)
                   \<and> safeEntry (safes c ! i) (roundShares pre c ! i) = [])))"
    if i: "i < length (safes c)" for i
  proof (cases "s_converted (safes c ! i)")
    case True
    then show ?thesis using nth [OF i] roundShares_nth [OF i, of pre] by simp
  next
    case False
    define sh where "sh = safeShares (roundPrice pre c)
                       (postMoneySafeShares (roundPrice pre c) (totalShares c) (safes c))
                       (totalWhenReached pre c i) (safes c ! i)"
    have rs: "roundShares pre c ! i = Some sh"
      using roundShares_nth [OF i, of pre] False by (simp add: sh_def)
    have pos: "safes (pricedRound pre newMoney nm c) ! i = (safes c ! i)\<lparr>s_converted := True\<rparr>
                   \<and> safeEntry (safes c ! i) (roundShares pre c ! i) =
                       [\<lparr>e_name = s_name (safes c ! i) @ '' (SAFE)'', e_shares = sh, e_type = Preferred\<rparr>]
                   \<and> \<lparr>e_name = s_name (safes c ! i) @ '' (SAFE)'', e_shares = sh, e_type = Preferred\<rparr>
                       \<in> set (capTable (pricedRound pre newMoney nm c))"
      if "js_gt sh (Fin 0)"
    proof -
      have e: "safeEntry (safes c ! i) (roundShares pre c ! i) =
                 [\<lparr>e_name = s_name (safes c ! i) @ '' (SAFE)'', e_shares = sh, e_type = Preferred\<rparr>]"
        using that by (simp add: rs)
      then have "\<lparr>e_name = s_name (safes c ! i) @ '' (SAFE)'', e_shares = sh, e_type = Preferred\<rparr>
                       \<in> set (capTable (pricedRound pre newMoney nm c))"
        using safeEntry_in_round [OF i, of _ pre newMoney nm] by simp
      with e that show ?thesis using nth [OF i] by (simp add: rs)
    qed
    have zero: "safes (pricedRound pre newMoney nm c) ! i = safes c ! i
                   \<and> \<not> s_converted (safes (pricedRound pre newMoney nm c) ! i)
                   \<and> safeEntry (safes c ! i) (roundShares pre c ! i) = []"
      if "is_zero sh"
      using is_zero_not_gt [OF that] nth [OF i] False by (simp add: rs)
    from False rs pos zero show ?thesis
      unfolding sh_def [symmetric] by blast
  qed
  from len pt show ?thesis
    by (simp only: pricedRound_char(2)) blast
qed

theorem pricedRound_conversions_witness:
  "length (safes companyMixed) = 2
   \<and> map s_converted (safes companyMixed) = [False, False]
   \<and> roundShares (Fin 10000000) companyMixed = [Some (Fin 10000), Some (Fin 0)]
   \<and> js_gt (Fin 10000) (Fin 0) \<and> is_zero (Fin 0)
   \<and> safes (pricedRound (Fin 10000000) (Fin 2000000) ''Series A'' companyMixed) ! 0
       = (safes companyMixed ! 0)\<lparr>s_converted := True\<rparr>
   \<and> safes (pricedRound (Fin 10000000) (Fin 2000000) ''Series A'' companyMixed) ! 1
       = safes companyMixed ! 1
   \<and> capTable (pricedRound (Fin 10000000) (Fin 2000000) ''Series A'' companyMixed) =
       capTable companyMixed @
         [\<lparr>e_name = ''S (SAFE)'', e_shares = Fin 10000, e_type = Preferred\<rparr>,
          \<lparr>e_name = ''Series A'', e_shares = Fin 200000, e_type = Preferred\<rparr>]"
proof -
  let ?c' = "pricedRound (Fin 10000000) (Fin 2000000) ''Series A'' companyMixed"
  have sf: "safes companyMixed =
              [\<lparr>s_cap = Uncapped, s_amount = Fin 100000, s_name = ''S'', s_converted = False,
                s_discount = None, s_type = PostMoney\<rparr>,
               \<lparr>s_cap = Uncapped, s_amount = Fin 4, s_name = ''T'', s_converted = False,
                s_discount = None, s_type = PostMoney\<rparr>]"
    by code_simp
  have rs: "roundShares (Fin 10000000) companyMixed = [Some (Fin 10000), Some (Fin 0)]"
    by code_simp
  have ser: "js_round (js_div (Fin 2000000) (roundPrice (Fin 10000000) companyMixed)) = Fin 200000"
    by code_simp
  have gt: "js_gt (Fin 10000) (Fin 0)"
    by (simp add: js_gt_def js_lt_def)
  note inst = pricedRound_conversions [of "Fin 10000000" "Fin 2000000" "''Series A''" companyMixed]
  from inst have ct: "capTable ?c' =
       capTable companyMixed @ concat (map2 safeEntry (safes companyMixed) (roundShares (Fin 10000000) companyMixed)) @
         [\<lparr>e_name = ''Series A'',
           e_shares = js_round (js_div (Fin 2000000) (roundPrice (Fin 10000000) companyMixed)),
           e_type = Preferred\<rparr>]"
    by blast
  from inst have p0: "\<exists>sh. roundShares (Fin 10000000) companyMixed ! 0 = Some sh
              \<and> (js_gt sh (Fin 0) \<longrightarrow> safes ?c' ! 0 = (safes companyMixed ! 0)\<lparr>s_converted := True\<rparr>)"
    by (simp add: sf)
  from inst have p1: "\<exists>sh. roundShares (Fin 10000000) companyMixed ! 1 = Some sh
              \<and> (is_zero sh \<longrightarrow> safes ?c' ! 1 = safes companyMixed ! 1)"
    by (simp add: sf)
  from p0 gt have s0: "safes ?c' ! 0 = (safes companyMixed ! 0)\<lparr>s_converted := True\<rparr>"
    by (simp add: rs)
  from p1 have s1: "safes ?c' ! 1 = safes companyMixed ! 1"
    by (simp add: rs)
  from ct have ct': "capTable ?c' = capTable companyMixed @
         [\<lparr>e_name = ''S (SAFE)'', e_shares = Fin 10000, e_type = Preferred\<rparr>,
          \<lparr>e_name = ''Series A'', e_shares = Fin 200000, e_type = Preferred\<rparr>]"
    by (simp add: rs ser sf gt js_gt_def js_lt_def)
  from s0 s1 ct' rs gt show ?thesis by (simp add: sf)
qed

section \<open>Capped pre-money SAFEs\<close>

lemma cappedShares_min:
  "cappedShares price denom k s =
     js_round (js_div (s_amount s)
       (js_min (js_div k denom)
          (if truthy (s_discount s)
           then js_mul price (js_sub (Fin 1) (js_div (the (s_discount s)) (Fin 100)))
           else price)))"
  by (simp add: cappedShares_def Let_def)

text \<open>
  C5. The claim prices every capped pre-money SAFE at \<open>cap / pre-round totalShares\<close>.
  The conversion loop reads \<open>this.totalShares\<close> after the entries of the SAFEs
  converted before have been added to it, so a SAFE that is not the first to convert
  gets another price. Two pre-money SAFEs with the same terms, each of 100,000 with cap
  5,000,000 and no discount, against 1,000,000 shares at a round price of 10: the claim
  gives both \<open>min(5, 10) = 5\<close> and 20,000 shares; the code gives the first one 20,000
  shares and the second one 20,400, its cap price being \<open>5,000,000 / 1,020,000\<close>.
\<close>

theorem capped_preMoney_second_safe:
  "map s_type (safes companyTwoCapped) = [PreMoney, PreMoney]
   \<and> map s_cap (safes companyTwoCapped) = [Capped (Fin 5000000), Capped (Fin 5000000)]
   \<and> map s_amount (safes companyTwoCapped) = [Fin 100000, Fin 100000]
   \<and> map s_discount (safes companyTwoCapped) = [None, None]
   \<and> totalShares companyTwoCapped = Fin 1000000
   \<and> roundPrice (Fin 10000000) companyTwoCapped = Fin 10
   \<and> js_round (js_div (Fin 100000)
        (js_min (js_div (Fin 5000000) (totalShares companyTwoCapped))
           (roundPrice (Fin 10000000) companyTwoCapped))) = Fin 20000
   \<and> capTable (pricedRound (Fin 10000000) (Fin 2000000) ''Series A'' companyTwoCapped) =
       capTable companyTwoCapped @
         [\<lparr>e_name = ''S (SAFE)'', e_shares = Fin 20000, e_type = Preferred\<rparr>,
          \<lparr>e_name = ''T (SAFE)'', e_shares = Fin 20400, e_type = Preferred\<rparr>,
          \<lparr>e_name = ''Series A'', e_shares = Fin 200000, e_type = Preferred\<rparr>]"
proof -
  have sf: "safes companyTwoCapped =
              [\<lparr>s_cap = Capped (Fin 5000000), s_amount = Fin 100000, s_name = ''S'',
                s_converted = False, s_discount = None, s_type = PreMoney\<rparr>,
               \<lparr>s_cap = Capped (Fin 5000000), s_amount = Fin 100000, s_name = ''T'',
                s_converted = False, s_discount = None, s_type = PreMoney\<rparr>]"
    by code_simp
  have t: "totalShares companyTwoCapped = Fin 1000000"
    by code_simp
  have p: "roundPrice (Fin 10000000) companyTwoCapped = Fin 10"
    by code_simp
  have r: "js_round (js_div (Fin 100000) (js_min (js_div (Fin 5000000) (Fin 1000000)) (Fin 10))) = Fin 20000"
    by code_simp
  have ct: "capTable (pricedRound (Fin 10000000) (Fin 2000000) ''Series A'' companyTwoCapped) =
       capTable companyTwoCapped @
         [\<lparr>e_name = ''S (SAFE)'', e_shares = Fin 20000, e_type = Preferred\<rparr>,
          \<lparr>e_name = ''T (SAFE)'', e_shares = Fin 20400, e_type = Preferred\<rparr>,
          \<lparr>e_name = ''Series A'', e_shares = Fin 200000, e_type = Preferred\<rparr>]"
    by code_simp
  from sf t p r ct show ?thesis by simp
qed

section \<open>A priced round on a ledger whose total is 0\<close>

lemma pricedRound_changes: "pricedRound pre newMoney nm c \<noteq> c"
proof
  assume "pricedRound pre newMoney nm c = c"
  then have "length (history (pricedRound pre newMoney nm c)) = length (history c)" by simp
  then show False by (simp add: pricedRound_char(4))
qed

lemma div_zero_not_finite: "\<not> is_finite (js_div x (Fin 0))"
  by (cases x) (simp_all add: js_div_def mk_inf_def)

lemma div_inf_zero: "is_finite x \<Longrightarrow> is_zero (js_round (js_div x PInf))"
  by (cases x) (simp_all add: js_div_def mk_zero_def)

text \<open>
  C4, as the code has it. On a ledger whose total is 0, \<open>pricedRound\<close> raises nothing
  and changes the ledger. The price per share is \<open>preMoneyValuation / 0\<close>, which is
  never a finite number: Infinity for a positive valuation. The round still appends its
  entry, with \<open>round(newMoney / pricePerShare)\<close> shares, which is 0 shares for a positive
  valuation and a finite amount of new money, and saves one snapshot.
\<close>

theorem pricedRound_zero_total:
  assumes "totalShares c = Fin 0"
  shows "roundPrice pre c = js_div pre (Fin 0)
       \<and> \<not> is_finite (roundPrice pre c)
       \<and> (pre = Fin v \<and> 0 < v \<longrightarrow> roundPrice pre c = PInf)
       \<and> last (capTable (pricedRound pre newMoney nm c)) =
           \<lparr>e_name = nm, e_shares = js_round (js_div newMoney (roundPrice pre c)), e_type = Preferred\<rparr>
       \<and> length (capTable c) < length (capTable (pricedRound pre newMoney nm c))
       \<and> length (history (pricedRound pre newMoney nm c)) = length (history c) + 1
       \<and> pricedRound pre newMoney nm c \<noteq> c
       \<and> (pre = Fin v \<and> 0 < v \<and> is_finite newMoney \<longrightarrow>
            is_zero (e_shares (last (capTable (pricedRound pre newMoney nm c)))))"
proof -
  have p: "roundPrice pre c = js_div pre (Fin 0)"
    by (simp add: roundPrice_def assms)
  have inf: "roundPrice pre c = PInf" if "pre = Fin v" "0 < v"
    unfolding p using that by (simp add: js_div_def mk_inf_def)
  have l: "last (capTable (pricedRound pre newMoney nm c)) =
           \<lparr>e_name = nm, e_shares = js_round (js_div newMoney (roundPrice pre c)), e_type = Preferred\<rparr>"
    by (simp add: pricedRound_char(2))
  have z: "is_zero (e_shares (last (capTable (pricedRound pre newMoney nm c))))"
    if "pre = Fin v" "0 < v" "is_finite newMoney"
  proof -
    from inf [OF that(1,2)] have "roundPrice pre c = PInf" .
    then show ?thesis unfolding l by (simp add: div_inf_zero that(3))
  qed
  have nf: "\<not> is_finite (roundPrice pre c)"
    unfolding p by (rule div_zero_not_finite)
  have len: "length (capTable c) < length (capTable (pricedRound pre newMoney nm c))"
    by (simp add: pricedRound_char(2))
  have h: "length (history (pricedRound pre newMoney nm c)) = length (history c) + 1"
    by (simp add: pricedRound_char(4))
  from p nf inf l z len h pricedRound_changes [of pre newMoney nm c]
  show ?thesis by blast
qed

theorem pricedRound_zero_total_witness:
  "totalShares companyEmpty = Fin 0 \<and> (0::rat) < 1000000 \<and> is_finite (Fin 100)
   \<and> roundPrice (Fin 1000000) companyEmpty = PInf
   \<and> is_zero (e_shares (last (capTable (pricedRound (Fin 1000000) (Fin 100) ''R'' companyEmpty))))
   \<and> length (history (pricedRound (Fin 1000000) (Fin 100) ''R'' companyEmpty))
       = length (history companyEmpty) + 1"
proof -
  have t: "totalShares companyEmpty = Fin 0"
    by code_simp
  note inst = pricedRound_zero_total [OF t, of "Fin 1000000" 1000000 "Fin 100" "''R''"]
  from inst have "Fin 1000000 = Fin 1000000 \<and> (0::rat) < 1000000 \<longrightarrow>
                    roundPrice (Fin 1000000) companyEmpty = PInf"
    by blast
  then have a: "roundPrice (Fin 1000000) companyEmpty = PInf"
    by simp
  from inst have "Fin 1000000 = Fin 1000000 \<and> (0::rat) < 1000000 \<and> is_finite (Fin 100) \<longrightarrow>
       is_zero (e_shares (last (capTable (pricedRound (Fin 1000000) (Fin 100) ''R'' companyEmpty))))"
    by blast
  then have b: "is_zero (e_shares (last (capTable (pricedRound (Fin 1000000) (Fin 100) ''R'' companyEmpty))))"
    by simp
  from inst have c: "length (history (pricedRound (Fin 1000000) (Fin 100) ''R'' companyEmpty))
       = length (history companyEmpty) + 1"
    by blast
  from t a b c show ?thesis by simp
qed

text \<open>
  C4 as stated fails: on the company without founders or pools, whose total is 0, a
  round at a pre-money valuation of 1,000,000 returns normally, having appended the
  entry of the round with 0 shares and a second snapshot.
\<close>

theorem pricedRound_zero_total_counterexample:
  "totalShares companyEmpty = Fin 0
   \<and> capTable companyEmpty = []
   \<and> length (history companyEmpty) = 1
   \<and> capTable (pricedRound (Fin 1000000) (Fin 100) ''R'' companyEmpty) =
       [\<lparr>e_name = ''R'', e_shares = Fin 0, e_type = Preferred\<rparr>]
   \<and> length (history (pricedRound (Fin 1000000) (Fin 100) ''R'' companyEmpty)) = 2
   \<and> pricedRound (Fin 1000000) (Fin 100) ''R'' companyEmpty \<noteq> companyEmpty"
proof -
  have 1: "totalShares companyEmpty = Fin 0"
    by code_simp
  have 2: "capTable companyEmpty = []"
    by code_simp
  have 3: "length (history companyEmpty) = 1"
    by code_simp
  have 4: "capTable (pricedRound (Fin 1000000) (Fin 100) ''R'' companyEmpty) =
       [\<lparr>e_name = ''R'', e_shares = Fin 0, e_type = Preferred\<rparr>]"
    by code_simp
  have 5: "length (history (pricedRound (Fin 1000000) (Fin 100) ''R'' companyEmpty)) = 2"
    by code_simp
  have 6: "pricedRound (Fin 1000000) (Fin 100) ''R'' companyEmpty \<noteq> companyEmpty"
  proof
    assume "pricedRound (Fin 1000000) (Fin 100) ''R'' companyEmpty = companyEmpty"
    then have "capTable (pricedRound (Fin 1000000) (Fin 100) ''R'' companyEmpty) = capTable companyEmpty"
      by (rule arg_cong)
    then show False unfolding 2 4 by simp
  qed
  from 1 2 3 4 5 6 show ?thesis by blast
qed

section \<open>Granting equity: the entry and its percentage\<close>






section \<open>Post-money SAFEs\<close>

lemma uncappedShares_discounted:
  "uncappedShares price s = js_round (js_div (s_amount s) (discountedPrice price (s_discount s)))"
  by (simp add: uncappedShares_def Let_def discountedPrice_def)

lemma cappedShares_discounted:
  "cappedShares price denom k s =
     js_round (js_div (s_amount s)
       (js_min (js_div k denom) (discountedPrice price (s_discount s))))"
  by (simp add: cappedShares_min discountedPrice_def)

lemma roundShares_uncapped:
  assumes "i < length (safes c)" "\<not> s_converted (safes c ! i)" "s_cap (safes c ! i) = Uncapped"
  shows "roundShares pre c ! i =
           Some (js_round (js_div (s_amount (safes c ! i))
                   (discountedPrice (roundPrice pre c) (s_discount (safes c ! i)))))"
  using roundShares_nth [OF assms(1), of pre] assms(2,3)
  by (simp add: safeShares_def uncappedShares_discounted)

lemma converted_after_round:
  assumes "i < length (safes c)" "\<not> s_converted (safes c ! i)" "roundShares pre c ! i = Some n"
  shows "s_converted (safes (pricedRound pre newMoney nm c) ! i) = js_gt n (Fin 0)"
  using assms by (simp add: pricedRound_char(1))

lemma accumulatedBefore_0: "accumulatedBefore pre c 0 = Fin 0"
  by (simp add: accumulatedBefore_def postMoneySafeShares_def)

lemma accumulatedBefore_all:
  "accumulatedBefore pre c (length (safes c)) =
     postMoneySafeShares (roundPrice pre c) (totalShares c) (safes c)"
  by (simp add: accumulatedBefore_def)

lemma accumulatedBefore_Suc:
  assumes "m < length (safes c)"
  shows "accumulatedBefore pre c (Suc m) =
     (if \<not> s_converted (safes c ! m) \<and> s_type (safes c ! m) = PostMoney then
        js_add (accumulatedBefore pre c m)
          (case s_cap (safes c ! m) of
             Uncapped \<Rightarrow>
               js_round (js_div (s_amount (safes c ! m))
                 (discountedPrice (roundPrice pre c) (s_discount (safes c ! m))))
           | Capped k \<Rightarrow>
               js_round (js_div (s_amount (safes c ! m))
                 (js_min (js_div k (js_add (totalShares c) (accumulatedBefore pre c m)))
                    (discountedPrice (roundPrice pre c) (s_discount (safes c ! m))))))
      else accumulatedBefore pre c m)"
  by (simp add: accumulatedBefore_def postMoneySafeShares_def take_Suc_conv_app_nth [OF assms]
        prePassStep_def uncappedShares_discounted cappedShares_discounted split: Cap.split)

lemma roundShares_capped_postMoney:
  assumes "l < length (safes c)" "\<not> s_converted (safes c ! l)"
    "s_type (safes c ! l) = PostMoney" "s_cap (safes c ! l) = Capped k"
    "concat (map2 safeEntry (take l (safes c)) (take l (roundShares pre c))) = []"
  shows "roundShares pre c ! l =
           Some (js_round (js_div (s_amount (safes c ! l))
                   (js_min (js_div k (js_add (totalShares c)
                                        (accumulatedBefore pre c (length (safes c)))))
                      (discountedPrice (roundPrice pre c) (s_discount (safes c ! l))))))"
proof -
  have t: "totalWhenReached pre c l = totalShares c"
    unfolding totalWhenReached_def assms(5) by simp
  show ?thesis
    using roundShares_nth [OF assms(1), of pre] assms(2,3,4)
    by (simp add: t safeShares_def cappedShares_discounted accumulatedBefore_all)
qed

text \<open>
  C6, as the code has it. In every priced round, two unconverted post-money uncapped
  SAFEs of equal amount and equal discount have the same computed share count,
  \<open>round(amount / discounted round price)\<close>, whatever else is outstanding: no
  accumulator and no running total enters it, and both convert or neither does. The
  accumulator of the first loop starts at 0, and each unconverted post-money instrument
  adds its share count to it, a capped one being priced at
  \<open>min(cap / (pre-round total + accumulator so far), discounted round price)\<close>: there the
  denominator holds only the instruments before it in the list. In the second loop, a
  capped post-money SAFE before which nothing has converted in this round is priced at
  \<open>min(cap / (pre-round total + final accumulator), discounted round price)\<close>: the final
  accumulator holds the first-loop shares of every post-money instrument, its own
  included.
\<close>

theorem postMoney_conversion:
  "(i < length (safes c) \<and> j < length (safes c)
      \<and> \<not> s_converted (safes c ! i) \<and> s_type (safes c ! i) = PostMoney
      \<and> s_cap (safes c ! i) = Uncapped
      \<and> \<not> s_converted (safes c ! j) \<and> s_type (safes c ! j) = PostMoney
      \<and> s_cap (safes c ! j) = Uncapped
      \<and> s_amount (safes c ! j) = s_amount (safes c ! i)
      \<and> s_discount (safes c ! j) = s_discount (safes c ! i) \<longrightarrow>
        roundShares pre c ! i =
          Some (js_round (js_div (s_amount (safes c ! i))
                  (discountedPrice (roundPrice pre c) (s_discount (safes c ! i)))))
        \<and> roundShares pre c ! j = roundShares pre c ! i
        \<and> s_converted (safes (pricedRound pre newMoney nm c) ! i) =
            js_gt (js_round (js_div (s_amount (safes c ! i))
                     (discountedPrice (roundPrice pre c) (s_discount (safes c ! i))))) (Fin 0)
        \<and> s_converted (safes (pricedRound pre newMoney nm c) ! j) =
            s_converted (safes (pricedRound pre newMoney nm c) ! i))
   \<and> accumulatedBefore pre c 0 = Fin 0
   \<and> (m < length (safes c) \<longrightarrow>
        accumulatedBefore pre c (Suc m) =
          (if \<not> s_converted (safes c ! m) \<and> s_type (safes c ! m) = PostMoney then
             js_add (accumulatedBefore pre c m)
               (case s_cap (safes c ! m) of
                  Uncapped \<Rightarrow>
                    js_round (js_div (s_amount (safes c ! m))
                      (discountedPrice (roundPrice pre c) (s_discount (safes c ! m))))
                | Capped k \<Rightarrow>
                    js_round (js_div (s_amount (safes c ! m))
                      (js_min (js_div k (js_add (totalShares c) (accumulatedBefore pre c m)))
                         (discountedPrice (roundPrice pre c) (s_discount (safes c ! m))))))
           else accumulatedBefore pre c m))
   \<and> (l < length (safes c) \<and> \<not> s_converted (safes c ! l)
      \<and> s_type (safes c ! l) = PostMoney \<and> s_cap (safes c ! l) = Capped cap
      \<and> concat (map2 safeEntry (take l (safes c)) (take l (roundShares pre c))) = [] \<longrightarrow>
        roundShares pre c ! l =
          Some (js_round (js_div (s_amount (safes c ! l))
                  (js_min (js_div cap (js_add (totalShares c)
                                         (accumulatedBefore pre c (length (safes c)))))
                     (discountedPrice (roundPrice pre c) (s_discount (safes c ! l)))))))"
proof (intro conjI impI)
  assume a: "i < length (safes c) \<and> j < length (safes c)
      \<and> \<not> s_converted (safes c ! i) \<and> s_type (safes c ! i) = PostMoney
      \<and> s_cap (safes c ! i) = Uncapped
      \<and> \<not> s_converted (safes c ! j) \<and> s_type (safes c ! j) = PostMoney
      \<and> s_cap (safes c ! j) = Uncapped
      \<and> s_amount (safes c ! j) = s_amount (safes c ! i)
      \<and> s_discount (safes c ! j) = s_discount (safes c ! i)"
  then have i: "i < length (safes c)" "\<not> s_converted (safes c ! i)" "s_cap (safes c ! i) = Uncapped"
    and j: "j < length (safes c)" "\<not> s_converted (safes c ! j)" "s_cap (safes c ! j) = Uncapped"
    and eq: "s_amount (safes c ! j) = s_amount (safes c ! i)"
            "s_discount (safes c ! j) = s_discount (safes c ! i)"
    by simp_all
  note ri = roundShares_uncapped [OF i, of pre]
  note rj = roundShares_uncapped [OF j, of pre, unfolded eq]
  show "roundShares pre c ! i =
          Some (js_round (js_div (s_amount (safes c ! i))
                  (discountedPrice (roundPrice pre c) (s_discount (safes c ! i)))))"
    by (rule ri)
  show "roundShares pre c ! j = roundShares pre c ! i"
    by (simp only: ri rj)
  show ci: "s_converted (safes (pricedRound pre newMoney nm c) ! i) =
            js_gt (js_round (js_div (s_amount (safes c ! i))
                     (discountedPrice (roundPrice pre c) (s_discount (safes c ! i))))) (Fin 0)"
    by (rule converted_after_round [OF i(1,2) ri])
  show "s_converted (safes (pricedRound pre newMoney nm c) ! j) =
            s_converted (safes (pricedRound pre newMoney nm c) ! i)"
    by (simp only: ci converted_after_round [OF j(1,2) rj])
next
  show "accumulatedBefore pre c 0 = Fin 0"
    by (rule accumulatedBefore_0)
next
  assume "m < length (safes c)"
  then show "accumulatedBefore pre c (Suc m) =
          (if \<not> s_converted (safes c ! m) \<and> s_type (safes c ! m) = PostMoney then
             js_add (accumulatedBefore pre c m)
               (case s_cap (safes c ! m) of
                  Uncapped \<Rightarrow>
                    js_round (js_div (s_amount (safes c ! m))
                      (discountedPrice (roundPrice pre c) (s_discount (safes c ! m))))
                | Capped k \<Rightarrow>
                    js_round (js_div (s_amount (safes c ! m))
                      (js_min (js_div k (js_add (totalShares c) (accumulatedBefore pre c m)))
                         (discountedPrice (roundPrice pre c) (s_discount (safes c ! m))))))
           else accumulatedBefore pre c m)"
    by (rule accumulatedBefore_Suc)
next
  assume "l < length (safes c) \<and> \<not> s_converted (safes c ! l)
      \<and> s_type (safes c ! l) = PostMoney \<and> s_cap (safes c ! l) = Capped cap
      \<and> concat (map2 safeEntry (take l (safes c)) (take l (roundShares pre c))) = []"
  then show "roundShares pre c ! l =
          Some (js_round (js_div (s_amount (safes c ! l))
                  (js_min (js_div cap (js_add (totalShares c)
                                         (accumulatedBefore pre c (length (safes c)))))
                     (discountedPrice (roundPrice pre c) (s_discount (safes c ! l))))))"
    by (intro roundShares_capped_postMoney) simp_all
qed

theorem postMoney_conversion_witness:
  "safes companyPostMoney =
     [\<lparr>s_cap = Capped (Fin 5000000), s_amount = Fin 100000, s_name = ''U'', s_converted = False,
       s_discount = None, s_type = PostMoney\<rparr>,
      \<lparr>s_cap = Uncapped, s_amount = Fin 100000, s_name = ''S'', s_converted = False,
       s_discount = Some (Fin 20), s_type = PostMoney\<rparr>,
      \<lparr>s_cap = Uncapped, s_amount = Fin 100000, s_name = ''T'', s_converted = False,
       s_discount = Some (Fin 20), s_type = PostMoney\<rparr>]
   \<and> totalShares companyPostMoney = Fin 1000000
   \<and> roundPrice (Fin 10000000) companyPostMoney = Fin 10
   \<and> roundShares (Fin 10000000) companyPostMoney ! 1 = Some (Fin 12500)
   \<and> roundShares (Fin 10000000) companyPostMoney ! 2 = Some (Fin 12500)
   \<and> s_converted (safes (pricedRound (Fin 10000000) (Fin 2000000) ''Series A'' companyPostMoney) ! 1)
   \<and> s_converted (safes (pricedRound (Fin 10000000) (Fin 2000000) ''Series A'' companyPostMoney) ! 2)
   \<and> accumulatedBefore (Fin 10000000) companyPostMoney 0 = Fin 0
   \<and> accumulatedBefore (Fin 10000000) companyPostMoney (Suc 0) = Fin 20000
   \<and> accumulatedBefore (Fin 10000000) companyPostMoney (length (safes companyPostMoney)) = Fin 45000
   \<and> roundShares (Fin 10000000) companyPostMoney ! 0 = Some (Fin 20900)"
proof -
  let ?c = companyPostMoney
  let ?c' = "pricedRound (Fin 10000000) (Fin 2000000) ''Series A'' companyPostMoney"
  have sf: "safes ?c =
     [\<lparr>s_cap = Capped (Fin 5000000), s_amount = Fin 100000, s_name = ''U'', s_converted = False,
       s_discount = None, s_type = PostMoney\<rparr>,
      \<lparr>s_cap = Uncapped, s_amount = Fin 100000, s_name = ''S'', s_converted = False,
       s_discount = Some (Fin 20), s_type = PostMoney\<rparr>,
      \<lparr>s_cap = Uncapped, s_amount = Fin 100000, s_name = ''T'', s_converted = False,
       s_discount = Some (Fin 20), s_type = PostMoney\<rparr>]"
    by code_simp
  have t: "totalShares ?c = Fin 1000000"
    by code_simp
  have p: "roundPrice (Fin 10000000) ?c = Fin 10"
    by code_simp
  have d20: "discountedPrice (Fin 10) (Some (Fin 20)) = Fin 8"
    by code_simp
  have d0: "discountedPrice (Fin 10) None = Fin 10"
    by (simp add: discountedPrice_def)
  have r1: "js_round (js_div (Fin 100000) (Fin 8)) = Fin 12500"
    by code_simp
  have gt: "js_gt (Fin 12500) (Fin 0)"
    by (simp add: js_gt_def js_lt_def)
  have r2: "js_add (Fin 0)
              (js_round (js_div (Fin 100000)
                 (js_min (js_div (Fin 5000000) (js_add (Fin 1000000) (Fin 0))) (Fin 10)))) = Fin 20000"
    by code_simp
  have r3: "js_round (js_div (Fin 100000)
              (js_min (js_div (Fin 5000000) (js_add (Fin 1000000) (Fin 45000))) (Fin 10))) = Fin 20900"
    by code_simp
  have acc: "accumulatedBefore (Fin 10000000) ?c (length (safes ?c)) = Fin 45000"
    by code_simp
  note inst = postMoney_conversion [where i = 1 and j = 2 and c = ?c and pre = "Fin 10000000"
      and newMoney = "Fin 2000000" and nm = "''Series A''" and m = 0 and l = 0
      and cap = "Fin 5000000"]
  from inst [THEN conjunct1]
  have a: "roundShares (Fin 10000000) ?c ! 1 = Some (Fin 12500)
         \<and> roundShares (Fin 10000000) ?c ! 2 = Some (Fin 12500)
         \<and> s_converted (safes ?c' ! 1) \<and> s_converted (safes ?c' ! 2)"
    by (simp add: sf p d20 r1 gt)
  from inst [THEN conjunct2, THEN conjunct1]
  have z: "accumulatedBefore (Fin 10000000) ?c 0 = Fin 0" .
  from inst [THEN conjunct2, THEN conjunct2, THEN conjunct1]
  have b: "accumulatedBefore (Fin 10000000) ?c (Suc 0) = Fin 20000"
    by (simp add: sf z t p d0 r2)
  from inst [THEN conjunct2, THEN conjunct2, THEN conjunct2, unfolded acc]
  have e: "roundShares (Fin 10000000) ?c ! 0 = Some (Fin 20900)"
    by (simp add: sf t p d0 r3)
  from sf t p a z b acc e show ?thesis by (intro conjI) simp_all
qed

text \<open>
  C6 as stated fails for a capped post-money SAFE. U (cap 5,000,000, amount 100,000) is
  signed first, then S and T, uncapped, 100,000 each with a 20% discount; 1,000,000
  shares, round price 10. The first loop gives U 20,000 shares and S and T 12,500 each:
  the accumulator ends at 45,000. The second loop converts U at
  \<open>5,000,000 / 1,045,000\<close>, to 20,900 shares: the denominator holds U's own 20,000
  shares. The pre-round total alone gives 20,000 shares, and with the shares of the two
  other instruments only, 20,500.
\<close>

theorem postMoney_conversion_counterexample:
  "map s_name (safes companyPostMoney) = [''U'', ''S'', ''T'']
   \<and> map s_cap (safes companyPostMoney) = [Capped (Fin 5000000), Uncapped, Uncapped]
   \<and> totalShares companyPostMoney = Fin 1000000
   \<and> roundPrice (Fin 10000000) companyPostMoney = Fin 10
   \<and> postMoneySafeShares (roundPrice (Fin 10000000) companyPostMoney)
        (totalShares companyPostMoney) (safes companyPostMoney) = Fin 45000
   \<and> capTable (pricedRound (Fin 10000000) (Fin 2000000) ''Series A'' companyPostMoney) =
       capTable companyPostMoney @
         [\<lparr>e_name = ''U (SAFE)'', e_shares = Fin 20900, e_type = Preferred\<rparr>,
          \<lparr>e_name = ''S (SAFE)'', e_shares = Fin 12500, e_type = Preferred\<rparr>,
          \<lparr>e_name = ''T (SAFE)'', e_shares = Fin 12500, e_type = Preferred\<rparr>,
          \<lparr>e_name = ''Series A'', e_shares = Fin 200000, e_type = Preferred\<rparr>]
   \<and> js_round (js_div (Fin 100000)
        (js_min (js_div (Fin 5000000) (Fin 1000000)) (Fin 10))) = Fin 20000
   \<and> js_round (js_div (Fin 100000)
        (js_min (js_div (Fin 5000000) (js_add (Fin 1000000) (Fin 25000))) (Fin 10))) = Fin 20500
   \<and> js_round (js_div (Fin 100000)
        (js_min (js_div (Fin 5000000) (js_add (Fin 1000000) (Fin 45000))) (Fin 10))) = Fin 20900"
proof -
  have 1: "map s_name (safes companyPostMoney) = [''U'', ''S'', ''T'']"
    by code_simp
  have 2: "map s_cap (safes companyPostMoney) = [Capped (Fin 5000000), Uncapped, Uncapped]"
    by code_simp
  have 3: "totalShares companyPostMoney = Fin 1000000"
    by code_simp
  have 4: "roundPrice (Fin 10000000) companyPostMoney = Fin 10"
    by code_simp
  have 5: "postMoneySafeShares (roundPrice (Fin 10000000) companyPostMoney)
        (totalShares companyPostMoney) (safes companyPostMoney) = Fin 45000"
    by code_simp
  have 6: "capTable (pricedRound (Fin 10000000) (Fin 2000000) ''Series A'' companyPostMoney) =
       capTable companyPostMoney @
         [\<lparr>e_name = ''U (SAFE)'', e_shares = Fin 20900, e_type = Preferred\<rparr>,
          \<lparr>e_name = ''S (SAFE)'', e_shares = Fin 12500, e_type = Preferred\<rparr>,
          \<lparr>e_name = ''T (SAFE)'', e_shares = Fin 12500, e_type = Preferred\<rparr>,
          \<lparr>e_name = ''Series A'', e_shares = Fin 200000, e_type = Preferred\<rparr>]"
    by code_simp
  have 7: "js_round (js_div (Fin 100000)
        (js_min (js_div (Fin 5000000) (Fin 1000000)) (Fin 10))) = Fin 20000"
    by code_simp
  have 8: "js_round (js_div (Fin 100000)
        (js_min (js_div (Fin 5000000) (js_add (Fin 1000000) (Fin 25000))) (Fin 10))) = Fin 20500"
    by code_simp
  have 9: "js_round (js_div (Fin 100000)
        (js_min (js_div (Fin 5000000) (js_add (Fin 1000000) (Fin 45000))) (Fin 10))) = Fin 20900"
    by code_simp
  from 1 2 3 4 5 6 7 8 9 show ?thesis by (intro conjI)
qed

section \<open>Totals never decrease while no share count is negative\<close>





lemma historyTotals_simps [simp]:
  "historyTotals (addEntity nm sh ty c) = historyTotals c"
  "historyTotals (saveSnapshot lbl c) = historyTotals c @ [totalShares c]"
  "historyTotals (c\<lparr>safes := ss\<rparr>) = historyTotals c"
  by (simp_all add: historyTotals_def)










end
